theory Spec2Isabelle
  imports Main
begin

section \<open>Values, errors and the outside world\<close>

text \<open>
  The class \<open>BskySession\<close> of \<open>bsky_session.py\<close> keeps three token fields that hold
  whatever the JSON decoder produced for them.  A field value is \<open>None\<close>, a string, or
  some other decoded value (number, boolean, list, nested object); of the last kind the
  code only ever uses the truth value (\<open>if not self.refresh_token\<close>) and the rendering by
  \<open>str()\<close> (the f-string of \<open>get_auth_header\<close>), so \<open>PyOther\<close> carries exactly these two.
\<close>

datatype pyval = PyNone | PyStr string | PyOther bool string

fun truthy :: "pyval \<Rightarrow> bool" where
  "truthy PyNone = False"
| "truthy (PyStr t) = (t \<noteq> [])"
| "truthy (PyOther b r) = b"

fun py_str :: "pyval \<Rightarrow> string" where
  "py_str PyNone = ''None''"
| "py_str (PyStr t) = t"
| "py_str (PyOther b r) = r"

type_synonym pydict = "string \<rightharpoonup> pyval"

text \<open>\<open>d.get(k)\<close>: a missing key gives \<open>None\<close>.\<close>

definition dict_get :: "pydict \<Rightarrow> string \<Rightarrow> pyval" where
  "dict_get m k = (case m k of None \<Rightarrow> PyNone | Some v \<Rightarrow> v)"

text \<open>
  What a JSON decoder returns at top level: an object (a Python dict) or anything else
  (list, string, number, \<open>null\<close>), on which \<open>x["k"]\<close> raises \<open>TypeError\<close> and \<open>x.get\<close>
  raises \<open>AttributeError\<close>.
\<close>

datatype decoded = JObject pydict | JNonObject

text \<open>
  The exceptions that can leave the methods.  \<open>ConnectionError\<close> is Python's builtin
  class, which \<open>_create_session\<close> and \<open>_refresh_access_token\<close> raise; the three last
  constructors are the subclasses of \<open>requests.RequestException\<close>: the status error of
  \<open>raise_for_status\<close>, a failure of the transport itself (with the name of its class),
  and the decoding error of \<open>resp.json()\<close> (\<open>requests.exceptions.JSONDecodeError\<close>, as
  in requests 2.27 and later).
\<close>

datatype error =
    ValueError
  | ConnectionError string
  | UnboundLocalError
  | KeyError string
  | TypeError
  | AttributeError
  | UnicodeDecodeError
  | OSError
  | HTTPError int
  | TransportError string
  | ResponseJSONDecodeError

fun is_RequestException :: "error \<Rightarrow> bool" where
  "is_RequestException (HTTPError st) = True"
| "is_RequestException (TransportError x) = True"
| "is_RequestException ResponseJSONDecodeError = True"
| "is_RequestException e = False"

fun is_HTTPError :: "error \<Rightarrow> bool" where
  "is_HTTPError (HTTPError st) = True"
| "is_HTTPError e = False"

record request =
  req_method :: string
  req_url :: string
  req_headers :: "string \<rightharpoonup> string"
  req_json :: "pydict option"
  req_data :: "string option"
  req_timeout :: nat

record response =
  status_code :: int
  body_json :: "decoded option"

text \<open>A call of \<open>requests\<close> either raises a \<open>RequestException\<close> or returns a response.\<close>

datatype outcome = Raises string | Responds response

text \<open>
  The session file as \<open>_load_session\<close> sees it: \<open>open\<close> fails (\<open>IOError\<close>), the bytes
  are not text, the text is not JSON, or it decodes.
\<close>

datatype file_content = Unreadable | BadEncoding | Malformed | Json decoded

datatype level = INFO | WARNING | ERROR

text \<open>
  Everything outside the object.  \<open>net\<close> is the transport: the outcome of the request
  that is made when \<open>n\<close> requests have been made before; \<open>calls\<close> records the requests
  made.  \<open>files\<close> is the file system; no file name contains the NUL character, so
  \<open>files w p\<close> is \<open>None\<close> for such a path \<open>p\<close>, as \<open>os.path.exists\<close> (Python 3.8 and
  later) is false for it.  Of the \<open>n\<close>-th attempt to write or remove the session file,
  \<open>disk_ok\<close> says whether \<open>open\<close> or \<open>os.remove\<close> succeeds, and \<open>write_ok\<close> whether
  writing into the opened file and closing it succeeds.  \<open>logs\<close> is the sink of the \<open>logging\<close> calls, each entry the level and the
  format string.  \<open>heap\<close> holds the header dictionaries, which Python passes by
  reference; \<open>next_ref\<close> is the first free address.  \<open>urlencode\<close> is
  \<open>urllib.parse.urlencode\<close>.
\<close>

record world =
  net :: "nat \<Rightarrow> request \<Rightarrow> outcome"
  calls :: "request list"
  files :: "string \<rightharpoonup> file_content"
  disk_ok :: "nat \<Rightarrow> bool"
  write_ok :: "nat \<Rightarrow> bool"
  disk_ops :: nat
  logs :: "(level \<times> string) list"
  heap :: "nat \<Rightarrow> (string \<rightharpoonup> string)"
  next_ref :: nat
  urlencode :: "(string \<times> string) list \<Rightarrow> string"

record BskySession =
  handle :: string
  app_password :: string
  session_file :: string
  access_token :: pyval
  refresh_token :: pyval
  did :: pyval

type_synonym 'a result = "(error + 'a) \<times> BskySession \<times> world"

definition BASE_URL :: string where
  "BASE_URL = ''https://bsky.social/xrpc''"

definition SESSION_FILE :: string where
  "SESSION_FILE = ''session.json''"

definition logging :: "level \<Rightarrow> string \<Rightarrow> world \<Rightarrow> world" where
  "logging l m w = w\<lparr>logs := logs w @ [(l, m)]\<rparr>"

text \<open>Issue a request: it is recorded, and the transport decides its outcome.\<close>

definition send :: "request \<Rightarrow> world \<Rightarrow> outcome \<times> world" where
  "send req w = (net w (length (calls w)) req, w\<lparr>calls := calls w @ [req]\<rparr>)"

text \<open>\<open>resp.raise_for_status()\<close> raises for the statuses 400 to 599 only.\<close>

definition raises_for_status :: "response \<Rightarrow> bool" where
  "raises_for_status resp = (400 \<le> status_code resp \<and> status_code resp < 600)"

section \<open>Persistence\<close>

text \<open>
  \<open>_save_session\<close>.  The handler of line 130 catches \<open>IOError\<close>, logs it and raises it
  again.  There are three ways to fail:
  \<^item> \<open>open\<close> rejects a path that contains the NUL character with \<open>ValueError\<close>, before it
    touches the disk; the handler does not catch it and nothing is logged;
  \<^item> \<open>open\<close> fails with \<open>IOError\<close>, and the file is as it was;
  \<^item> \<open>open\<close> succeeds, which empties the file, and \<open>json.dump\<close> or the closing of the
    file fails with \<open>IOError\<close>: the file holds a proper prefix of the text of a JSON
    object, which does not decode.
\<close>

definition has_nul :: "string \<Rightarrow> bool" where
  "has_nul p = (CHR 0x00 \<in> set p)"

definition session_blob :: "BskySession \<Rightarrow> pydict" where
  "session_blob s =
     [''accessJwt'' \<mapsto> access_token s, ''refreshJwt'' \<mapsto> refresh_token s, ''did'' \<mapsto> did s]"

definition save_session :: "BskySession \<Rightarrow> world \<Rightarrow> (error + unit) \<times> world" where
  "save_session s w =
     (let w1 = w\<lparr>disk_ops := Suc (disk_ops w)\<rparr> in
      if has_nul (session_file s) then (Inl ValueError, w)
      else if \<not> disk_ok w (disk_ops w)
      then (Inl OSError, logging ERROR ''Failed to save session file: %s'' w1)
      else if \<not> write_ok w (disk_ops w)
      then (Inl OSError,
            logging ERROR ''Failed to save session file: %s''
              (w1\<lparr>files := (files w1)(session_file s \<mapsto> Malformed)\<rparr>))
      else (Inr (),
            logging INFO ''Session saved to file.''
              (w1\<lparr>files := (files w1)(session_file s \<mapsto> Json (JObject (session_blob s)))\<rparr>)))"

section \<open>Token lifecycle\<close>

text \<open>
  Lines 57 to 61 and 84 to 88 are the same statements: decode the body, assign the
  three fields one after the other (\<open>accessJwt\<close> and \<open>did\<close> by subscript, \<open>refreshJwt\<close> by
  \<open>get\<close>), save, and log the message given.  An exception leaves the fields assigned so
  far as they are.
\<close>

definition adopt_tokens :: "string \<Rightarrow> response \<Rightarrow> BskySession \<Rightarrow> world \<Rightarrow> unit result" where
  "adopt_tokens done_msg resp s w =
     (case body_json resp of
        None \<Rightarrow> (Inl ResponseJSONDecodeError, s, w)
      | Some JNonObject \<Rightarrow> (Inl TypeError, s, w)
      | Some (JObject session) \<Rightarrow>
          (case session ''accessJwt'' of
             None \<Rightarrow> (Inl (KeyError ''accessJwt''), s, w)
           | Some a \<Rightarrow>
               (let s1 = s\<lparr>access_token := a\<rparr>;
                    s2 = s1\<lparr>refresh_token := dict_get session ''refreshJwt''\<rparr>
                in case session ''did'' of
                     None \<Rightarrow> (Inl (KeyError ''did''), s2, w)
                   | Some d \<Rightarrow>
                       (let s3 = s2\<lparr>did := d\<rparr>
                        in case save_session s3 w of
                             (Inl e, w1) \<Rightarrow> (Inl e, s3, w1)
                           | (Inr u, w1) \<Rightarrow> (Inr (), s3, logging INFO done_msg w1)))))"

text \<open>
  The \<open>try\<close> block of both operations.  When \<open>requests.post\<close> itself raises, the local
  \<open>resp\<close> has never been bound, and the handler's \<open>getattr(resp, ...)\<close> raises
  \<open>UnboundLocalError\<close> before anything is logged or \<open>ConnectionError\<close> is raised.  When
  \<open>raise_for_status\<close> raises, \<open>resp\<close> is bound: the error is logged and
  \<open>ConnectionError\<close> raised.
\<close>

definition create_request :: "BskySession \<Rightarrow> request" where
  "create_request s =
     \<lparr>req_method = ''POST'',
      req_url = BASE_URL @ ''/com.atproto.server.createSession'',
      req_headers = Map.empty,
      req_json = Some [''identifier'' \<mapsto> PyStr (handle s), ''password'' \<mapsto> PyStr (app_password s)],
      req_data = None,
      req_timeout = 10\<rparr>"

definition create_session :: "BskySession \<Rightarrow> world \<Rightarrow> unit result" where
  "create_session s w =
     (case send (create_request s) w of
        (Raises x, w1) \<Rightarrow> (Inl UnboundLocalError, s, w1)
      | (Responds resp, w1) \<Rightarrow>
          if raises_for_status resp
          then (Inl (ConnectionError ''Error creating session''), s,
                logging ERROR ''Error %s: %s'' w1)
          else adopt_tokens ''New session created.'' resp s w1)"

definition refresh_request :: "BskySession \<Rightarrow> request" where
  "refresh_request s =
     \<lparr>req_method = ''POST'',
      req_url = BASE_URL @ ''/com.atproto.server.refreshSession'',
      req_headers = Map.empty,
      req_json = Some [''refreshToken'' \<mapsto> refresh_token s],
      req_data = None,
      req_timeout = 10\<rparr>"

definition refresh_access_token :: "BskySession \<Rightarrow> world \<Rightarrow> unit result" where
  "refresh_access_token s w =
     (if \<not> truthy (refresh_token s)
      then (Inl ValueError, s, logging ERROR ''No refresh token available.'' w)
      else case send (refresh_request s) w of
             (Raises x, w1) \<Rightarrow> (Inl UnboundLocalError, s, w1)
           | (Responds resp, w1) \<Rightarrow>
               if raises_for_status resp
               then (Inl (ConnectionError ''Error refreshing session''), s,
                     logging ERROR ''Error %s: %s'' w1)
               else adopt_tokens ''Access token refreshed successfully.'' resp s w1)"

section \<open>Bootstrap\<close>

text \<open>
  \<open>_load_session\<close>.  The handler of line 106 catches \<open>IOError\<close> and
  \<open>json.JSONDecodeError\<close> and then creates a session; \<open>UnicodeDecodeError\<close> and the
  \<open>AttributeError\<close> of \<open>session.get\<close> on a decoded value that is no dictionary are not
  among them and leave the constructor.
\<close>

definition load_session :: "BskySession \<Rightarrow> world \<Rightarrow> unit result" where
  "load_session s w =
     (case files w (session_file s) of
        None \<Rightarrow>
          create_session s
            (logging INFO ''No existing session file found. Creating a new session.'' w)
      | Some (Json (JObject session)) \<Rightarrow>
          (Inr (),
           s\<lparr>access_token := dict_get session ''accessJwt'',
             refresh_token := dict_get session ''refreshJwt'',
             did := dict_get session ''did''\<rparr>,
           logging INFO ''Session loaded from file.'' w)
      | Some (Json JNonObject) \<Rightarrow> (Inl AttributeError, s, w)
      | Some BadEncoding \<Rightarrow> (Inl UnicodeDecodeError, s, w)
      | Some Unreadable \<Rightarrow>
          create_session s
            (logging INFO ''Creating a new session.''
               (logging WARNING ''Failed to load session file: %s'' w))
      | Some Malformed \<Rightarrow>
          create_session s
            (logging INFO ''Creating a new session.''
               (logging WARNING ''Failed to load session file: %s'' w)))"

text \<open>
  \<open>__init__\<close>.  Line 35, \<open>session_file or self.SESSION_FILE\<close>, replaces \<open>None\<close> and the
  empty string by the default path.
\<close>

definition session_path :: "string option \<Rightarrow> string" where
  "session_path sf = (case sf of None \<Rightarrow> SESSION_FILE | Some f \<Rightarrow> if f = [] then SESSION_FILE else f)"

definition init :: "string \<Rightarrow> string \<Rightarrow> string option \<Rightarrow> world \<Rightarrow> unit result" where
  "init h p sf w =
     load_session
       \<lparr>handle = h, app_password = p, session_file = session_path sf,
        access_token = PyNone, refresh_token = PyNone, did = PyNone\<rparr> w"

section \<open>Guarded call\<close>

definition get_auth_header :: "BskySession \<Rightarrow> (string \<rightharpoonup> string)" where
  "get_auth_header s = [''Authorization'' \<mapsto> ''Bearer '' @ py_str (access_token s)]"

text \<open>
  \<open>headers = headers or {}\<close>: \<open>None\<close> and an empty dictionary are both false, so
  either is replaced by a dictionary newly allocated; any other dictionary is used itself.
\<close>

definition new_dict :: "world \<Rightarrow> nat \<times> world" where
  "new_dict w =
     (next_ref w, w\<lparr>heap := (heap w)(next_ref w := Map.empty), next_ref := Suc (next_ref w)\<rparr>)"

definition headers_or_new :: "nat option \<Rightarrow> world \<Rightarrow> nat \<times> world" where
  "headers_or_new headers w =
     (case headers of
        None \<Rightarrow> new_dict w
      | Some r \<Rightarrow> if heap w r = Map.empty then new_dict w else (r, w))"

text \<open>\<open>headers.update(self.get_auth_header())\<close> on the dictionary at address \<open>h\<close>.\<close>

definition update_headers :: "nat \<Rightarrow> BskySession \<Rightarrow> world \<Rightarrow> world" where
  "update_headers h s w = w\<lparr>heap := (heap w)(h := heap w h ++ get_auth_header s)\<rparr>"

definition build_url :: "world \<Rightarrow> string \<Rightarrow> (string \<times> string) list option \<Rightarrow> string" where
  "build_url w endpoint params =
     (let url = BASE_URL @ ''/'' @ endpoint
      in case params of
           None \<Rightarrow> url
         | Some ps \<Rightarrow> if ps = [] then url else url @ ''?'' @ urlencode w ps)"

text \<open>
  Lines 171 to 176: refresh, and on \<open>ConnectionError\<close> (no other exception) create.
\<close>

definition recover :: "BskySession \<Rightarrow> world \<Rightarrow> unit result" where
  "recover s w =
     (case refresh_access_token s w of
        (Inl (ConnectionError m), s1, w1) \<Rightarrow>
          create_session s1
            (logging INFO ''Creating a new session.''
               (logging ERROR ''Failed to refresh token: %s'' w1))
      | r \<Rightarrow> r)"

text \<open>
  The handler of line 181 logs a \<open>RequestException\<close> and raises it again; every other
  exception, and every result, passes it untouched.  It encloses the whole \<open>try\<close> block,
  the recursive call included.
\<close>

definition reraise :: "error \<Rightarrow> world \<Rightarrow> world" where
  "reraise e w = (if is_RequestException e then logging ERROR ''Error during API call: %s'' w else w)"

definition handler :: "'a result \<Rightarrow> 'a result" where
  "handler r = (case r of (Inl e, s, w) \<Rightarrow> (Inl e, s, reraise e w) | (Inr v, s, w) \<Rightarrow> (Inr v, s, w))"

definition api_request ::
  "world \<Rightarrow> string \<Rightarrow> string \<Rightarrow> pydict option \<Rightarrow> string option \<Rightarrow> nat \<Rightarrow>
   (string \<times> string) list option \<Rightarrow> request" where
  "api_request w endpoint meth json data h params =
     \<lparr>req_method = meth,
      req_url = build_url w endpoint params,
      req_headers = heap w h,
      req_json = json,
      req_data = data,
      req_timeout = 10\<rparr>"

function api_call ::
  "BskySession \<Rightarrow> world \<Rightarrow> string \<Rightarrow> string \<Rightarrow> pydict option \<Rightarrow> string option \<Rightarrow> nat option \<Rightarrow>
   (string \<times> string) list option \<Rightarrow> int \<Rightarrow> decoded result" where
  "api_call s w endpoint meth json data headers params retry =
     (let h = fst (headers_or_new headers w);
          w1 = update_headers h s (snd (headers_or_new headers w));
          sent = send (api_request w1 endpoint meth json data h params) w1;
          w2 = snd sent
      in handler
          (case fst sent of
             Raises x \<Rightarrow> (Inl (TransportError x), s, w2)
           | Responds resp \<Rightarrow>
               if status_code resp \<in> {401, 400} \<and> retry > 0
               then (case recover s
                            (logging INFO
                               ''Token potentially expired or invalid. Attempting to refresh.'' w2) of
                       (Inl e, s3, w3) \<Rightarrow> (Inl e, s3, w3)
                     | (Inr u, s3, w3) \<Rightarrow>
                         api_call s3 (update_headers h s3 w3) endpoint meth json data
                           (Some h) params (retry - 1))
               else if raises_for_status resp
               then (Inl (HTTPError (status_code resp)), s, w2)
               else (case body_json resp of
                       None \<Rightarrow> (Inl ResponseJSONDecodeError, s, w2)
                     | Some v \<Rightarrow> (Inr v, s, w2))))"
  by pat_completeness auto
termination
  by (relation "measure (\<lambda>(s, w, endpoint, meth, json, data, headers, params, retry). nat retry)") auto

declare api_call.simps [simp del]

section \<open>Logout\<close>

definition logout :: "BskySession \<Rightarrow> world \<Rightarrow> unit result" where
  "logout s w =
     (let s1 = s\<lparr>access_token := PyNone, refresh_token := PyNone, did := PyNone\<rparr>
      in if files w (session_file s) \<noteq> None
         then (let w1 = w\<lparr>disk_ops := Suc (disk_ops w)\<rparr>
               in if disk_ok w (disk_ops w)
                  then (Inr (), s1,
                        logging INFO ''Session file deleted.''
                          (w1\<lparr>files := (files w1)(session_file s := None)\<rparr>))
                  else (Inr (), s1, logging ERROR ''Error deleting session file: %s'' w1))
         else (Inr (), s1, w))"

section \<open>Example sessions and worlds\<close>

text \<open>
  Concrete inputs for the examples below.  \<open>scripted\<close> is a transport that answers the
  \<open>n\<close>-th request with the \<open>n\<close>-th outcome of a list and times out afterwards;
  \<open>join_pairs\<close> is \<open>urlencode\<close> on keys and values without reserved characters.
\<close>

fun join_pairs :: "(string \<times> string) list \<Rightarrow> string" where
  "join_pairs [] = []"
| "join_pairs [(k, v)] = k @ ''='' @ v"
| "join_pairs ((k, v) # ps) = k @ ''='' @ v @ ''&'' @ join_pairs ps"

definition scripted :: "outcome list \<Rightarrow> nat \<Rightarrow> request \<Rightarrow> outcome" where
  "scripted os n req = (if n < length os then os ! n else Raises ''ConnectTimeout'')"

definition demo_world :: "(nat \<Rightarrow> request \<Rightarrow> outcome) \<Rightarrow> world" where
  "demo_world n =
     \<lparr>net = n, calls = [], files = Map.empty, disk_ok = (\<lambda>k. True), write_ok = (\<lambda>k. True),
      disk_ops = 0, logs = [],
      heap = (\<lambda>r. Map.empty), next_ref = 0, urlencode = join_pairs\<rparr>"

definition demo_session :: BskySession where
  "demo_session =
     \<lparr>handle = ''alice.bsky.social'', app_password = ''app-pw'', session_file = ''session.json'',
      access_token = PyStr ''A1'', refresh_token = PyStr ''R1'', did = PyStr ''did:abc''\<rparr>"

definition token_response :: "string \<Rightarrow> string \<Rightarrow> string \<Rightarrow> outcome" where
  "token_response a r d =
     Responds \<lparr>status_code = 200,
               body_json = Some (JObject [''accessJwt'' \<mapsto> PyStr a, ''refreshJwt'' \<mapsto> PyStr r,
                                          ''did'' \<mapsto> PyStr d])\<rparr>"

definition status_response :: "int \<Rightarrow> outcome" where
  "status_response st = Responds \<lparr>status_code = st, body_json = None\<rparr>"

definition null_blob :: pydict where
  "null_blob = [''accessJwt'' \<mapsto> PyNone, ''refreshJwt'' \<mapsto> PyNone, ''did'' \<mapsto> PyNone]"


definition timeline_request :: "string \<Rightarrow> request" where
  "timeline_request tok =
     \<lparr>req_method = ''GET'', req_url = ''https://bsky.social/xrpc/app.bsky.feed.getTimeline'',
      req_headers = [''Authorization'' \<mapsto> ''Bearer '' @ tok], req_json = None, req_data = None,
      req_timeout = 10\<rparr>"

definition ok_response :: outcome where
  "ok_response = Responds \<lparr>status_code = 200, body_json = Some (JObject [''ok'' \<mapsto> PyOther True ''True''])\<rparr>"

section \<open>Observations on worlds\<close>

text \<open>
  \<open>same_env\<close>: the second world has the transport, disk behaviour, encoder and header
  dictionaries of the first.  \<open>recovery_attempts\<close> counts how often line 170 has logged that
  a recovery starts.
\<close>

definition same_env :: "world \<Rightarrow> world \<Rightarrow> bool" where
  "same_env w w' =
     (net w' = net w \<and> disk_ok w' = disk_ok w \<and> write_ok w' = write_ok w \<and>
      urlencode w' = urlencode w \<and>
      heap w' = heap w \<and> next_ref w' = next_ref w)"

definition recovery_attempts :: "world \<Rightarrow> nat" where
  "recovery_attempts w =
     length (filter (\<lambda>e. e = (INFO, ''Token potentially expired or invalid. Attempting to refresh.''))
       (logs w))"

section \<open>Basic facts\<close>

lemma logging_fields [simp]:
  "net (logging l m w) = net w"
  "calls (logging l m w) = calls w"
  "files (logging l m w) = files w"
  "disk_ok (logging l m w) = disk_ok w"
  "write_ok (logging l m w) = write_ok w"
  "disk_ops (logging l m w) = disk_ops w"
  "logs (logging l m w) = logs w @ [(l, m)]"
  "heap (logging l m w) = heap w"
  "next_ref (logging l m w) = next_ref w"
  "urlencode (logging l m w) = urlencode w"
  by (simp_all add: logging_def)

lemma update_headers_fields [simp]:
  "net (update_headers h s w) = net w"
  "calls (update_headers h s w) = calls w"
  "files (update_headers h s w) = files w"
  "disk_ok (update_headers h s w) = disk_ok w"
  "write_ok (update_headers h s w) = write_ok w"
  "disk_ops (update_headers h s w) = disk_ops w"
  "logs (update_headers h s w) = logs w"
  "heap (update_headers h s w) = (heap w)(h := heap w h ++ get_auth_header s)"
  "next_ref (update_headers h s w) = next_ref w"
  "urlencode (update_headers h s w) = urlencode w"
  by (simp_all add: update_headers_def)

lemma reraise_fields [simp]:
  "net (reraise e w) = net w"
  "calls (reraise e w) = calls w"
  "files (reraise e w) = files w"
  "disk_ok (reraise e w) = disk_ok w"
  "write_ok (reraise e w) = write_ok w"
  "disk_ops (reraise e w) = disk_ops w"
  "heap (reraise e w) = heap w"
  "next_ref (reraise e w) = next_ref w"
  "urlencode (reraise e w) = urlencode w"
  by (simp_all add: reraise_def)

lemma handler_simps [simp]:
  "handler (Inl e, s, w) = (Inl e, s, reraise e w)"
  "handler (Inr v, s, w) = (Inr v, s, w)"
  by (simp_all add: handler_def)

lemma send_simps [simp]:
  "fst (send req w) = net w (length (calls w)) req"
  "snd (send req w) = w\<lparr>calls := calls w @ [req]\<rparr>"
  by (simp_all add: send_def)

lemma api_call_transport_error:
  assumes "h = fst (headers_or_new headers w)"
    and "w1 = update_headers h s (snd (headers_or_new headers w))"
    and "req = api_request w1 endpoint meth json data h params"
    and "net w1 (length (calls w1)) req = Raises x"
  shows "api_call s w endpoint meth json data headers params retry =
           (Inl (TransportError x), s,
            logging ERROR ''Error during API call: %s'' (w1\<lparr>calls := calls w1 @ [req]\<rparr>))"
  using assms by (subst api_call.simps) (simp add: Let_def reraise_def)

lemma api_call_done:
  assumes "h = fst (headers_or_new headers w)"
    and "w1 = update_headers h s (snd (headers_or_new headers w))"
    and "req = api_request w1 endpoint meth json data h params"
    and "net w1 (length (calls w1)) req = Responds resp"
    and "\<not> (status_code resp \<in> {401, 400} \<and> retry > 0)"
  shows "api_call s w endpoint meth json data headers params retry =
           handler
             (if raises_for_status resp
              then (Inl (HTTPError (status_code resp)), s, w1\<lparr>calls := calls w1 @ [req]\<rparr>)
              else case body_json resp of
                     None \<Rightarrow> (Inl ResponseJSONDecodeError, s, w1\<lparr>calls := calls w1 @ [req]\<rparr>)
                   | Some v \<Rightarrow> (Inr v, s, w1\<lparr>calls := calls w1 @ [req]\<rparr>))"
  using assms by (subst api_call.simps, hypsubst) (auto simp add: Let_def split: option.splits)

lemma api_call_recover:
  assumes "h = fst (headers_or_new headers w)"
    and "w1 = update_headers h s (snd (headers_or_new headers w))"
    and "req = api_request w1 endpoint meth json data h params"
    and "net w1 (length (calls w1)) req = Responds resp"
    and "status_code resp \<in> {401, 400}" and "retry > 0"
  shows "api_call s w endpoint meth json data headers params retry =
           handler
             (case recover s
                     (logging INFO ''Token potentially expired or invalid. Attempting to refresh.''
                        (w1\<lparr>calls := calls w1 @ [req]\<rparr>)) of
                (Inl e, s3, w3) \<Rightarrow> (Inl e, s3, w3)
              | (Inr u, s3, w3) \<Rightarrow>
                  api_call s3 (update_headers h s3 w3) endpoint meth json data (Some h) params
                    (retry - 1))"
  using assms by (subst api_call.simps, hypsubst) (simp add: Let_def)

text \<open>
  The outcomes of the two token operations, one lemma for each way through their
  \<open>try\<close> block.
\<close>

lemma create_session_transport_raises:
  "net w (length (calls w)) (create_request s) = Raises x \<Longrightarrow>
   create_session s w = (Inl UnboundLocalError, s, w\<lparr>calls := calls w @ [create_request s]\<rparr>)"
  by (simp add: create_session_def send_def)

lemma refresh_access_token_transport_raises:
  "truthy (refresh_token s) \<Longrightarrow> net w (length (calls w)) (refresh_request s) = Raises x \<Longrightarrow>
   refresh_access_token s w = (Inl UnboundLocalError, s, w\<lparr>calls := calls w @ [refresh_request s]\<rparr>)"
  by (simp add: refresh_access_token_def send_def)

lemma create_session_http_error:
  "net w (length (calls w)) (create_request s) = Responds resp \<Longrightarrow> raises_for_status resp \<Longrightarrow>
   create_session s w =
     (Inl (ConnectionError ''Error creating session''), s,
      logging ERROR ''Error %s: %s'' (w\<lparr>calls := calls w @ [create_request s]\<rparr>))"
  by (simp add: create_session_def send_def)

lemma refresh_access_token_http_error:
  "truthy (refresh_token s) \<Longrightarrow> net w (length (calls w)) (refresh_request s) = Responds resp \<Longrightarrow>
   raises_for_status resp \<Longrightarrow>
   refresh_access_token s w =
     (Inl (ConnectionError ''Error refreshing session''), s,
      logging ERROR ''Error %s: %s'' (w\<lparr>calls := calls w @ [refresh_request s]\<rparr>))"
  by (simp add: refresh_access_token_def send_def)



lemma save_session_nul:
  "has_nul (session_file s) \<Longrightarrow> save_session s w = (Inl ValueError, w)"
  by (simp add: save_session_def)

lemma save_session_open_fails:
  "\<not> has_nul (session_file s) \<Longrightarrow> \<not> disk_ok w (disk_ops w) \<Longrightarrow>
   fst (save_session s w) = Inl OSError \<and> files (snd (save_session s w)) = files w"
  by (simp add: save_session_def)

lemma save_session_write_fails:
  "\<not> has_nul (session_file s) \<Longrightarrow> disk_ok w (disk_ops w) \<Longrightarrow> \<not> write_ok w (disk_ops w) \<Longrightarrow>
   fst (save_session s w) = Inl OSError \<and>
   files (snd (save_session s w)) = (files w)(session_file s \<mapsto> Malformed)"
  by (simp add: save_session_def)


lemma adopt_tokens_saved:
  assumes "body_json resp = Some (JObject m)" and "m ''accessJwt'' = Some a" and "m ''did'' = Some d"
    and "\<not> has_nul (session_file s)" and "disk_ok w (disk_ops w)" and "write_ok w (disk_ops w)"
  shows "adopt_tokens msg resp s w =
           (Inr (),
            s\<lparr>access_token := a, refresh_token := dict_get m ''refreshJwt'', did := d\<rparr>,
            logging INFO msg
              (logging INFO ''Session saved to file.''
                 (w\<lparr>disk_ops := Suc (disk_ops w),
                    files := (files w)(session_file s \<mapsto>
                      Json (JObject (session_blob
                        (s\<lparr>access_token := a, refresh_token := dict_get m ''refreshJwt'', did := d\<rparr>))))\<rparr>)))"
  using assms by (simp add: adopt_tokens_def save_session_def Let_def)

lemma adopt_tokens_success:
  assumes "adopt_tokens msg resp s w = (Inr u, s', w')"
  shows "\<exists>m a. body_json resp = Some (JObject m) \<and> m ''accessJwt'' = Some a \<and> access_token s' = a"
  using assms
  by (auto simp add: adopt_tokens_def Let_def split: option.splits decoded.splits prod.splits sum.splits)

lemma create_session_success:
  assumes "create_session s w = (Inr u, s', w')"
  shows "\<exists>resp m a. net w (length (calls w)) (create_request s) = Responds resp \<and>
           body_json resp = Some (JObject m) \<and> m ''accessJwt'' = Some a \<and> access_token s' = a"
  using assms
  by (auto simp add: create_session_def send_def split: outcome.splits if_splits
      dest: adopt_tokens_success)

text \<open>
  The definitions that an evaluation at a concrete input unfolds.
\<close>

lemmas demo_defs = demo_world_def demo_session_def scripted_def status_response_def
  token_response_def BASE_URL_def

lemmas model_defs = Let_def headers_or_new_def new_dict_def update_headers_def api_request_def
  build_url_def get_auth_header_def send_def recover_def refresh_access_token_def
  create_session_def adopt_tokens_def save_session_def has_nul_def raises_for_status_def
  handler_def
  reraise_def logging_def dict_get_def refresh_request_def create_request_def session_blob_def

section \<open>Facts about recovery and the guarded call\<close>

lemma same_env_refl [simp]: "same_env w w"
  by (simp add: same_env_def)

lemma same_env_logging [simp]: "same_env w (logging l m w') = same_env w w'"
  by (simp add: same_env_def)

lemma same_env_logging_left [simp]: "same_env (logging l m w) w' = same_env w w'"
  by (simp add: same_env_def)

lemma same_env_calls [simp]: "same_env w (w'\<lparr>calls := cs\<rparr>) = same_env w w'"
  by (simp add: same_env_def)

lemma same_env_calls_left [simp]: "same_env (w\<lparr>calls := cs\<rparr>) w' = same_env w w'"
  by (simp add: same_env_def)

lemma same_env_reraise [simp]: "same_env w (reraise e w') = same_env w w'"
  by (simp add: same_env_def)

lemma save_session_frame:
  "same_env w (snd (save_session s w)) \<and> calls (snd (save_session s w)) = calls w \<and>
   recovery_attempts (snd (save_session s w)) = recovery_attempts w"
  by (simp add: save_session_def Let_def same_env_def recovery_attempts_def)

lemma adopt_tokens_frame:
  "same_env w (snd (snd (adopt_tokens msg resp s w))) \<and>
   calls (snd (snd (adopt_tokens msg resp s w))) = calls w \<and>
   (msg \<noteq> ''Token potentially expired or invalid. Attempting to refresh.'' \<longrightarrow>
    recovery_attempts (snd (snd (adopt_tokens msg resp s w))) = recovery_attempts w)"
  by (auto simp add: adopt_tokens_def save_session_def Let_def recovery_attempts_def same_env_def
      split: option.splits decoded.splits)

lemma adopt_tokens_not_ConnectionError:
  "adopt_tokens msg resp s w \<noteq> (Inl (ConnectionError m), s', w')"
  by (auto simp add: adopt_tokens_def Let_def save_session_def
      split: option.splits decoded.splits prod.splits sum.splits)

lemma create_session_frame:
  "same_env w (snd (snd (create_session s w))) \<and>
   calls (snd (snd (create_session s w))) = calls w @ [create_request s] \<and>
   recovery_attempts (snd (snd (create_session s w))) = recovery_attempts w"
  using adopt_tokens_frame [of "w\<lparr>calls := calls w @ [create_request s]\<rparr>" "''New session created.''" _ s]
  by (auto simp add: create_session_def send_def recovery_attempts_def split: outcome.splits)

lemma refresh_access_token_frame:
  "same_env w (snd (snd (refresh_access_token s w))) \<and>
   calls (snd (snd (refresh_access_token s w))) =
     calls w @ (if truthy (refresh_token s) then [refresh_request s] else []) \<and>
   recovery_attempts (snd (snd (refresh_access_token s w))) = recovery_attempts w"
  using adopt_tokens_frame [of "w\<lparr>calls := calls w @ [refresh_request s]\<rparr>"
      "''Access token refreshed successfully.''" _ s]
  by (auto simp add: refresh_access_token_def send_def recovery_attempts_def split: outcome.splits)

lemma refresh_access_token_ConnectionError:
  assumes "refresh_access_token s w = (Inl (ConnectionError m), s1, w1)"
  shows "s1 = s \<and> truthy (refresh_token s)"
  using assms adopt_tokens_not_ConnectionError [of "''Access token refreshed successfully.''" _ s _ m s1 w1]
  by (auto simp add: refresh_access_token_def send_def split: if_splits outcome.splits)


lemma same_env_trans: "same_env a b \<Longrightarrow> same_env b c \<Longrightarrow> same_env a c"
  by (simp add: same_env_def)

lemma recover_cases [case_names Refresh Fallback]:
  obtains "recover s w = refresh_access_token s w"
      and "\<And>m. fst (refresh_access_token s w) \<noteq> Inl (ConnectionError m)"
  | m w1 where "refresh_access_token s w = (Inl (ConnectionError m), s, w1)"
      and "truthy (refresh_token s)"
      and "recover s w =
             create_session s
               (logging INFO ''Creating a new session.''
                  (logging ERROR ''Failed to refresh token: %s'' w1))"
proof (cases "\<exists>m. fst (refresh_access_token s w) = Inl (ConnectionError m)")
  case True
  then obtain m s1 w1 where r: "refresh_access_token s w = (Inl (ConnectionError m), s1, w1)"
    by (metis prod.collapse)
  from refresh_access_token_ConnectionError [OF r] have "s1 = s" and "truthy (refresh_token s)"
    by simp_all
  with r that(2) show thesis
    by (simp add: recover_def)
next
  case False
  then have "recover s w = refresh_access_token s w"
    by (auto simp add: recover_def split: prod.splits sum.splits error.splits)
  with False that(1) show thesis
    by simp
qed

lemma recover_frame:
  "same_env w (snd (snd (recover s w))) \<and>
   recovery_attempts (snd (snd (recover s w))) = recovery_attempts w"
proof (cases s w rule: recover_cases)
  case Refresh
  then show ?thesis
    by (simp add: refresh_access_token_frame)
next
  case (Fallback m w1)
  let ?w2 = "logging INFO ''Creating a new session.'' (logging ERROR ''Failed to refresh token: %s'' w1)"
  from refresh_access_token_frame [of w s] Fallback(1)
  have 1: "same_env w w1" "recovery_attempts w1 = recovery_attempts w"
    by simp_all
  then have 2: "same_env w ?w2" "recovery_attempts ?w2 = recovery_attempts w"
    by (simp_all add: recovery_attempts_def)
  from create_session_frame [of ?w2 s] 1 2 Fallback(3) show ?thesis
    by (auto intro: same_env_trans)
qed

lemma recover_calls:
  "\<exists>cs. calls (snd (snd (recover s w))) = calls w @ cs \<and>
     (cs = [] \<and> \<not> truthy (refresh_token s) \<or>
      cs = [refresh_request s] \<or>
      cs = [refresh_request s, create_request s] \<and>
        (\<exists>m. fst (refresh_access_token s w) = Inl (ConnectionError m)))"
proof (cases s w rule: recover_cases)
  case Refresh
  then show ?thesis
    by (simp add: refresh_access_token_frame)
next
  case (Fallback m w1)
  from refresh_access_token_frame [of w s] Fallback(1,2)
  have "calls w1 = calls w @ [refresh_request s]"
    by simp
  with create_session_frame
    [of "logging INFO ''Creating a new session.'' (logging ERROR ''Failed to refresh token: %s'' w1)" s]
    Fallback(1,3)
  show ?thesis
    by simp
qed

lemma headers_or_new_frame [simp]:
  "net (snd (headers_or_new headers w)) = net w"
  "calls (snd (headers_or_new headers w)) = calls w"
  "files (snd (headers_or_new headers w)) = files w"
  "disk_ok (snd (headers_or_new headers w)) = disk_ok w"
  "write_ok (snd (headers_or_new headers w)) = write_ok w"
  "disk_ops (snd (headers_or_new headers w)) = disk_ops w"
  "logs (snd (headers_or_new headers w)) = logs w"
  "urlencode (snd (headers_or_new headers w)) = urlencode w"
  by (simp_all add: headers_or_new_def new_dict_def split: option.splits)

lemma headers_or_new_nonempty:
  "heap w r \<noteq> Map.empty \<Longrightarrow> headers_or_new (Some r) w = (r, w)"
  by (simp add: headers_or_new_def)

lemma update_headers_nonempty: "heap (update_headers h s w) h \<noteq> Map.empty"
  by (simp add: get_auth_header_def)

lemma update_headers_idem: "update_headers h s (update_headers h s w) = update_headers h s w"
  by (simp add: update_headers_def get_auth_header_def)

lemma build_url_cong: "urlencode w' = urlencode w \<Longrightarrow> build_url w' endpoint params = build_url w endpoint params"
  by (cases params) (simp_all add: build_url_def Let_def)

lemma api_call_result_induct [case_names Transport Done Failed Retried]:
  fixes P :: "BskySession \<Rightarrow> world \<Rightarrow> nat option \<Rightarrow> int \<Rightarrow> decoded result \<Rightarrow> bool"
  assumes transport: "\<And>s w headers retry h w1 req x.
      h = fst (headers_or_new headers w) \<Longrightarrow>
      w1 = update_headers h s (snd (headers_or_new headers w)) \<Longrightarrow>
      req = api_request w1 endpoint meth json data h params \<Longrightarrow>
      net w1 (length (calls w1)) req = Raises x \<Longrightarrow>
      P s w headers retry
        (Inl (TransportError x), s,
         logging ERROR ''Error during API call: %s'' (w1\<lparr>calls := calls w1 @ [req]\<rparr>))"
    and final: "\<And>s w headers retry h w1 req resp.
      h = fst (headers_or_new headers w) \<Longrightarrow>
      w1 = update_headers h s (snd (headers_or_new headers w)) \<Longrightarrow>
      req = api_request w1 endpoint meth json data h params \<Longrightarrow>
      net w1 (length (calls w1)) req = Responds resp \<Longrightarrow>
      \<not> (status_code resp \<in> {401, 400} \<and> retry > 0) \<Longrightarrow>
      P s w headers retry
        (handler
           (if raises_for_status resp
            then (Inl (HTTPError (status_code resp)), s, w1\<lparr>calls := calls w1 @ [req]\<rparr>)
            else case body_json resp of
                   None \<Rightarrow> (Inl ResponseJSONDecodeError, s, w1\<lparr>calls := calls w1 @ [req]\<rparr>)
                 | Some v \<Rightarrow> (Inr v, s, w1\<lparr>calls := calls w1 @ [req]\<rparr>)))"
    and failed: "\<And>s w headers retry h w1 req resp e s3 w3.
      h = fst (headers_or_new headers w) \<Longrightarrow>
      w1 = update_headers h s (snd (headers_or_new headers w)) \<Longrightarrow>
      req = api_request w1 endpoint meth json data h params \<Longrightarrow>
      net w1 (length (calls w1)) req = Responds resp \<Longrightarrow>
      status_code resp \<in> {401, 400} \<Longrightarrow> retry > 0 \<Longrightarrow>
      recover s (logging INFO ''Token potentially expired or invalid. Attempting to refresh.''
                   (w1\<lparr>calls := calls w1 @ [req]\<rparr>)) = (Inl e, s3, w3) \<Longrightarrow>
      P s w headers retry (Inl e, s3, reraise e w3)"
    and retried: "\<And>s w headers retry h w1 req resp u s3 w3.
      h = fst (headers_or_new headers w) \<Longrightarrow>
      w1 = update_headers h s (snd (headers_or_new headers w)) \<Longrightarrow>
      req = api_request w1 endpoint meth json data h params \<Longrightarrow>
      net w1 (length (calls w1)) req = Responds resp \<Longrightarrow>
      status_code resp \<in> {401, 400} \<Longrightarrow> retry > 0 \<Longrightarrow>
      recover s (logging INFO ''Token potentially expired or invalid. Attempting to refresh.''
                   (w1\<lparr>calls := calls w1 @ [req]\<rparr>)) = (Inr u, s3, w3) \<Longrightarrow>
      P s3 (update_headers h s3 w3) (Some h) (retry - 1)
        (api_call s3 (update_headers h s3 w3) endpoint meth json data (Some h) params (retry - 1)) \<Longrightarrow>
      P s w headers retry
        (handler (api_call s3 (update_headers h s3 w3) endpoint meth json data (Some h) params
                    (retry - 1)))"
  shows "P s w headers retry (api_call s w endpoint meth json data headers params retry)"
proof (induction "nat retry" arbitrary: s w headers retry rule: less_induct)
  case less
  define h where "h = fst (headers_or_new headers w)"
  define w1 where "w1 = update_headers h s (snd (headers_or_new headers w))"
  define req where "req = api_request w1 endpoint meth json data h params"
  note defs = h_def w1_def req_def
  show ?case
  proof (cases "net w1 (length (calls w1)) req")
    case (Raises x)
    from transport [OF defs Raises] api_call_transport_error [OF defs Raises]
    show ?thesis by simp
  next
    case (Responds resp)
    show ?thesis
    proof (cases "status_code resp \<in> {401, 400} \<and> retry > 0")
      case False
      from final [OF defs Responds False] api_call_done [OF defs Responds False]
      show ?thesis by simp
    next
      case True
      then have st: "status_code resp \<in> {401, 400}" and pos: "retry > 0"
        by simp_all
      note unfold = api_call_recover [OF defs Responds st pos]
      obtain r s3 w3 where rec:
        "recover s (logging INFO ''Token potentially expired or invalid. Attempting to refresh.''
                      (w1\<lparr>calls := calls w1 @ [req]\<rparr>)) = (r, s3, w3)"
        by (metis prod.collapse)
      show ?thesis
      proof (cases r)
        case (Inl e)
        with failed [OF defs Responds st pos] rec unfold show ?thesis
          by simp
      next
        case (Inr u)
        from pos have "nat (retry - 1) < nat retry"
          by simp
        from less [OF this] retried [OF defs Responds st pos] rec Inr unfold show ?thesis
          by simp
      qed
    qed
  qed
qed

lemma refresh_access_token_missing:
  "\<not> truthy (refresh_token s) \<Longrightarrow>
   refresh_access_token s w = (Inl ValueError, s, logging ERROR ''No refresh token available.'' w)"
  by (simp add: refresh_access_token_def)

lemma recover_missing:
  "\<not> truthy (refresh_token s) \<Longrightarrow>
   recover s w = (Inl ValueError, s, logging ERROR ''No refresh token available.'' w)"
  by (simp add: recover_def refresh_access_token_missing)

lemma api_call_retried_done:
  assumes "w4 = update_headers h s3 w3"
    and "req2 = api_request w4 endpoint meth json data h params"
    and "net w4 (length (calls w4)) req2 = Responds resp2"
    and "\<not> (status_code resp2 \<in> {401, 400} \<and> retry > 0)"
  shows "api_call s3 w4 endpoint meth json data (Some h) params retry =
           handler
             (if raises_for_status resp2
              then (Inl (HTTPError (status_code resp2)), s3, w4\<lparr>calls := calls w4 @ [req2]\<rparr>)
              else case body_json resp2 of
                     None \<Rightarrow> (Inl ResponseJSONDecodeError, s3, w4\<lparr>calls := calls w4 @ [req2]\<rparr>)
                   | Some v \<Rightarrow> (Inr v, s3, w4\<lparr>calls := calls w4 @ [req2]\<rparr>))"
proof -
  have hn: "headers_or_new (Some h) (update_headers h s3 w3) = (h, update_headers h s3 w3)"
    by (rule headers_or_new_nonempty) (rule update_headers_nonempty)
  have 1: "h = fst (headers_or_new (Some h) w4)"
    by (simp add: assms(1) hn)
  have 2: "w4 = update_headers h s3 (snd (headers_or_new (Some h) w4))"
    by (simp add: assms(1) hn update_headers_idem)
  from api_call_done [OF 1 2 assms(2,3,4)] show ?thesis .
qed

lemma handler_calls [simp]: "calls (snd (snd (handler r))) = calls (snd (snd r))"
  by (auto simp add: handler_def split: prod.splits sum.splits)

lemma handler_heap [simp]: "heap (snd (snd (handler r))) = heap (snd (snd r))"
  by (auto simp add: handler_def split: prod.splits sum.splits)

lemma handler_fst [simp]: "fst (handler r) = fst r"
  by (auto simp add: handler_def split: prod.splits sum.splits)

lemma handler_session [simp]: "fst (snd (handler r)) = fst (snd r)"
  by (auto simp add: handler_def split: prod.splits sum.splits)

lemma recover_world:
  assumes "recover s w = (r, s3, w3)"
  shows "same_env w w3"
    and "recovery_attempts w3 = recovery_attempts w"
    and "\<exists>cs. calls w3 = calls w @ cs \<and>
           (cs = [] \<and> \<not> truthy (refresh_token s) \<or>
            cs = [refresh_request s] \<or>
            cs = [refresh_request s, create_request s] \<and>
              (\<exists>m. fst (refresh_access_token s w) = Inl (ConnectionError m)))"
  using recover_frame [of w s] recover_calls [of s w] assms by simp_all

lemma retried_request:
  assumes "w1 = update_headers h s w0"
    and "req = api_request w1 endpoint meth json data h params"
    and "same_env (logging l m (w1\<lparr>calls := cs\<rparr>)) w3"
  shows "api_request (update_headers h s3 w3) endpoint meth json data h params =
           req\<lparr>req_headers := req_headers req ++ get_auth_header s3\<rparr>"
proof -
  from assms(3) have "urlencode w3 = urlencode w1" and "heap w3 = heap w1"
    by (simp_all add: same_env_def)
  then show ?thesis
    by (simp add: assms(2) api_request_def build_url_cong [of "update_headers h s3 w3" w1])
qed

lemma api_call_calls:
  "\<exists>rest. calls (snd (snd (api_call s w endpoint meth json data headers params retry))) =
     calls w @
     [api_request (update_headers (fst (headers_or_new headers w)) s (snd (headers_or_new headers w)))
        endpoint meth json data (fst (headers_or_new headers w)) params] @ rest"
proof (rule api_call_result_induct [where P = "\<lambda>s w headers retry res.
    \<exists>rest. calls (snd (snd res)) =
      calls w @
      [api_request (update_headers (fst (headers_or_new headers w)) s (snd (headers_or_new headers w)))
         endpoint meth json data (fst (headers_or_new headers w)) params] @ rest"], goal_cases)
  case (1 s w headers retry h w1 req x)
  then show ?case by simp
next
  case (2 s w headers retry h w1 req resp)
  then show ?case by (simp split: option.splits)
next
  case (3 s w headers retry h w1 req resp e s3 w3)
  from recover_world(3) [OF 3(7)] 3(1-3) show ?case
    by auto
next
  case (4 s w headers retry h w1 req resp u s3 w3)
  from recover_world(3) [OF 4(7)] obtain cs where "calls w3 = calls w @ [req] @ cs"
    using 4(2) by auto
  with 4(8) 4(1-3) show ?case
    by auto
qed

lemma api_call_heap:
  "\<exists>t. heap (snd (snd (api_call s w endpoint meth json data headers params retry))) =
         (heap (snd (headers_or_new headers w)))
           (fst (headers_or_new headers w) :=
              (heap (snd (headers_or_new headers w)) (fst (headers_or_new headers w)))
                (''Authorization'' \<mapsto> ''Bearer '' @ t)) \<and>
       (\<forall>v. fst (api_call s w endpoint meth json data headers params retry) = Inr v \<longrightarrow>
            t = py_str (access_token (fst (snd (api_call s w endpoint meth json data headers params retry)))))"
proof (rule api_call_result_induct [where P = "\<lambda>s w headers retry res.
    \<exists>t. heap (snd (snd res)) =
         (heap (snd (headers_or_new headers w)))
           (fst (headers_or_new headers w) :=
              (heap (snd (headers_or_new headers w)) (fst (headers_or_new headers w)))
                (''Authorization'' \<mapsto> ''Bearer '' @ t)) \<and>
       (\<forall>v. fst res = Inr v \<longrightarrow> t = py_str (access_token (fst (snd res))))"], goal_cases)
  case (1 s w headers retry h w1 req x)
  then show ?case
    by (intro exI [of _ "py_str (access_token s)"]) (simp add: get_auth_header_def)
next
  case (2 s w headers retry h w1 req resp)
  then show ?case
    by (intro exI [of _ "py_str (access_token s)"])
      (simp add: get_auth_header_def split: option.splits)
next
  case (3 s w headers retry h w1 req resp e s3 w3)
  from recover_world(1) [OF 3(7)] have "heap w3 = heap w1"
    by (simp add: same_env_def)
  with 3(1,2) show ?case
    by (intro exI [of _ "py_str (access_token s)"]) (simp add: get_auth_header_def)
next
  case (4 s w headers retry h w1 req resp u s3 w3)
  from recover_world(1) [OF 4(7)] have hp: "heap w3 = heap w1"
    by (simp add: same_env_def)
  have hn: "headers_or_new (Some h) (update_headers h s3 w3) = (h, update_headers h s3 w3)"
    by (rule headers_or_new_nonempty) (rule update_headers_nonempty)
  from 4(8) obtain t where
    t: "heap (snd (snd (api_call s3 (update_headers h s3 w3) endpoint meth json data (Some h) params
                          (retry - 1)))) =
          (heap (update_headers h s3 w3))(h := (heap (update_headers h s3 w3) h)
             (''Authorization'' \<mapsto> ''Bearer '' @ t))"
    and ok: "\<forall>v. fst (api_call s3 (update_headers h s3 w3) endpoint meth json data (Some h) params
                          (retry - 1)) = Inr v \<longrightarrow>
              t = py_str (access_token (fst (snd (api_call s3 (update_headers h s3 w3) endpoint meth
                     json data (Some h) params (retry - 1)))))"
    unfolding hn fst_conv snd_conv by blast
  from t hp 4(1,2) have
    "heap (snd (snd (handler (api_call s3 (update_headers h s3 w3) endpoint meth json data (Some h)
                                params (retry - 1))))) =
       (heap (snd (headers_or_new headers w)))
         (fst (headers_or_new headers w) :=
            (heap (snd (headers_or_new headers w)) (fst (headers_or_new headers w)))
              (''Authorization'' \<mapsto> ''Bearer '' @ t))"
    by (simp add: get_auth_header_def)
  with ok show ?case
    by auto
qed

section \<open>Bootstrap, logout and the header\<close>

text \<open>
  Claim C10.  When \<open>access_token\<close> is \<open>None\<close>, \<open>get_auth_header\<close> returns the dictionary
  with the single entry \<open>Authorization: Bearer None\<close>: the header is neither left out nor
  is an exception raised.  This is the state after every \<open>logout\<close>.
\<close>

theorem get_auth_header_absent_token:
  "(access_token s = PyNone \<longrightarrow> get_auth_header s = [''Authorization'' \<mapsto> ''Bearer None'']) \<and>
   get_auth_header (fst (snd (logout s w))) = [''Authorization'' \<mapsto> ''Bearer None'']"
  by (simp add: get_auth_header_def logout_def Let_def)

text \<open>
  The same after a bootstrap from a persisted record all of whose fields are \<open>null\<close>.
\<close>

theorem get_auth_header_absent_token_witness:
  "access_token (fst (snd (init ''alice.bsky.social'' ''app-pw'' None
        ((demo_world (scripted []))\<lparr>files := [''session.json'' \<mapsto> Json (JObject null_blob)]\<rparr>)))) = PyNone \<and>
   get_auth_header (fst (snd (init ''alice.bsky.social'' ''app-pw'' None
        ((demo_world (scripted []))\<lparr>files := [''session.json'' \<mapsto> Json (JObject null_blob)]\<rparr>))))
     = [''Authorization'' \<mapsto> ''Bearer None'']"
  using get_auth_header_absent_token
    [of "fst (snd (init ''alice.bsky.social'' ''app-pw'' None
        ((demo_world (scripted []))\<lparr>files := [''session.json'' \<mapsto> Json (JObject null_blob)]\<rparr>)))"]
  by (simp add: init_def load_session_def session_path_def SESSION_FILE_def demo_world_def
      null_blob_def dict_get_def)

text \<open>
  Claim C8.  \<open>logout\<close> never raises and always leaves the three token fields \<open>None\<close>.
  When the session file exists and removing it fails, the failure is logged as an error,
  the file stays, and the fields are cleared all the same.
\<close>

theorem logout_clears_unconditionally:
  "fst (logout s w) = Inr () \<and>
   access_token (fst (snd (logout s w))) = PyNone \<and>
   refresh_token (fst (snd (logout s w))) = PyNone \<and>
   did (fst (snd (logout s w))) = PyNone \<and>
   (files w (session_file s) \<noteq> None \<and> \<not> disk_ok w (disk_ops w) \<longrightarrow>
      logs (snd (snd (logout s w))) = logs w @ [(ERROR, ''Error deleting session file: %s'')] \<and>
      files (snd (snd (logout s w))) = files w)"
  by (simp add: logout_def Let_def)

text \<open>
  A logout whose \<open>os.remove\<close> fails.
\<close>

theorem logout_clears_unconditionally_witness:
  "files ((demo_world (scripted []))\<lparr>files := [''session.json'' \<mapsto> Json (JObject null_blob)],
            disk_ok := (\<lambda>k. False)\<rparr>) (session_file demo_session) \<noteq> None \<and>
   \<not> disk_ok ((demo_world (scripted []))\<lparr>files := [''session.json'' \<mapsto> Json (JObject null_blob)],
            disk_ok := (\<lambda>k. False)\<rparr>) 0 \<and>
   logout demo_session
     ((demo_world (scripted []))\<lparr>files := [''session.json'' \<mapsto> Json (JObject null_blob)],
            disk_ok := (\<lambda>k. False)\<rparr>) =
     (Inr (),
      demo_session\<lparr>access_token := PyNone, refresh_token := PyNone, did := PyNone\<rparr>,
      (demo_world (scripted []))\<lparr>files := [''session.json'' \<mapsto> Json (JObject null_blob)],
            disk_ok := (\<lambda>k. False), disk_ops := 1,
            logs := [(ERROR, ''Error deleting session file: %s'')]\<rparr>)"
  using logout_clears_unconditionally [of demo_session
     "(demo_world (scripted []))\<lparr>files := [''session.json'' \<mapsto> Json (JObject null_blob)],
            disk_ok := (\<lambda>k. False)\<rparr>"]
  by (simp add: logout_def Let_def demo_world_def demo_session_def logging_def)




text \<open>
  The failure on a decoded value that is no object, for every session and world.
\<close>

lemma load_session_non_object:
  "files w (session_file s) = Some (Json JNonObject) \<Longrightarrow> load_session s w = (Inl AttributeError, s, w)"
  by (simp add: load_session_def)

text \<open>
  Claim C6, as stated, fails: a session file whose three fields are \<open>null\<close> is loaded,
  construction succeeds, and \<open>access_token\<close> is \<open>None\<close>.
\<close>

theorem init_null_blob_counterexample:
  "fst (init ''alice.bsky.social'' ''app-pw'' None
          ((demo_world (scripted []))\<lparr>files := [''session.json'' \<mapsto> Json (JObject null_blob)]\<rparr>))
     = Inr () \<and>
   access_token (fst (snd (init ''alice.bsky.social'' ''app-pw'' None
          ((demo_world (scripted []))\<lparr>files := [''session.json'' \<mapsto> Json (JObject null_blob)]\<rparr>))))
     = PyNone"
  by (simp add: init_def load_session_def session_path_def SESSION_FILE_def demo_world_def
      null_blob_def dict_get_def)

text \<open>
  Claim C6, amended.  After a construction that succeeds, \<open>access_token\<close> is the
  \<open>accessJwt\<close> value of the source the session was populated from: the persisted record
  when the file decoded to one (\<open>None\<close> when the key is missing or \<open>null\<close>), and otherwise
  the response to the Create request, which then contains the key.  So the token is present
  exactly when that source carries a value other than \<open>null\<close>.
\<close>

theorem init_access_token_from_source:
  assumes "init h p sf w = (Inr u, s', w')"
  shows "(\<exists>m. files w (session_path sf) = Some (Json (JObject m)) \<and>
              access_token s' = (case m ''accessJwt'' of None \<Rightarrow> PyNone | Some v \<Rightarrow> v)) \<or>
         (\<exists>resp m a. files w (session_path sf) \<in> {None, Some Unreadable, Some Malformed} \<and>
              net w (length (calls w))
                (create_request \<lparr>handle = h, app_password = p, session_file = session_path sf,
                   access_token = PyNone, refresh_token = PyNone, did = PyNone\<rparr>) = Responds resp \<and>
              body_json resp = Some (JObject m) \<and> m ''accessJwt'' = Some a \<and> access_token s' = a)"
proof (cases "files w (session_path sf)")
  case None
  with assms show ?thesis
    by (auto simp add: init_def load_session_def dest!: create_session_success)
next
  case (Some c)
  show ?thesis
  proof (cases c)
    case (Json d)
    with Some assms show ?thesis
      by (cases d) (auto simp add: init_def load_session_def dict_get_def)
  qed (use Some assms in \<open>auto simp add: init_def load_session_def dest!: create_session_success\<close>)
qed

text \<open>
  A construction without a session file takes the token from the Create response.
\<close>

theorem init_access_token_from_source_witness:
  "init ''alice.bsky.social'' ''app-pw'' None
     (demo_world (scripted [token_response ''A1'' ''R1'' ''did:abc''])) =
     (Inr (), demo_session,
      (demo_world (scripted [token_response ''A1'' ''R1'' ''did:abc'']))
        \<lparr>calls := [create_request demo_session],
         files := [''session.json'' \<mapsto> Json (JObject (session_blob demo_session))],
         disk_ops := 1,
         logs := [(INFO, ''No existing session file found. Creating a new session.''),
                  (INFO, ''Session saved to file.''), (INFO, ''New session created.'')]\<rparr>) \<and>
   files (demo_world (scripted [token_response ''A1'' ''R1'' ''did:abc''])) (session_path None) = None \<and>
   access_token demo_session = PyStr ''A1''"
  using init_access_token_from_source [of "''alice.bsky.social''" "''app-pw''" None
      "demo_world (scripted [token_response ''A1'' ''R1'' ''did:abc''])"]
  by (simp add: init_def load_session_def session_path_def SESSION_FILE_def demo_world_def
      create_session_def send_def scripted_def token_response_def raises_for_status_def
      adopt_tokens_def save_session_def has_nul_def Let_def dict_get_def logging_def
      demo_session_def create_request_def session_blob_def)

section \<open>Token lifecycle: failures\<close>

text \<open>
  Claim C4.  The claim wants every transport failure of Create or Refresh to reach the
  caller as \<open>ConnectionError\<close>.  That holds when a response with a status from 400 to
  599 arrives (\<open>create_session_http_error\<close>, \<open>refresh_access_token_http_error\<close>).  When
  \<open>requests.post\<close> raises and no response exists, the handler reads the unbound local
  \<open>resp\<close>, and \<open>UnboundLocalError\<close> leaves the operation instead: here for a transport
  that refuses the connection.
\<close>

theorem transport_failure_escapes_as_UnboundLocalError:
  "create_session demo_session (demo_world (scripted [Raises ''ConnectionError''])) =
     (Inl UnboundLocalError, demo_session,
      (demo_world (scripted [Raises ''ConnectionError'']))\<lparr>calls := [create_request demo_session]\<rparr>) \<and>
   refresh_access_token demo_session (demo_world (scripted [Raises ''ConnectionError''])) =
     (Inl UnboundLocalError, demo_session,
      (demo_world (scripted [Raises ''ConnectionError'']))\<lparr>calls := [refresh_request demo_session]\<rparr>)"
  by (simp add: create_session_def refresh_access_token_def send_def demo_world_def scripted_def
      demo_session_def)




section \<open>Guarded call: recovery\<close>

text \<open>
  Claim C1, as stated, fails.  With retry budget 1 and status 401 on both attempts the
  call ends in the \<open>HTTPError\<close> of \<open>raise_for_status\<close>, the error that a status 403
  produces and that a single 401 with budget 0 produces, where no recovery was tried: there
  is no error of its own for the exhausted budget.
\<close>

theorem auth_failure_exhausted_counterexample:
  "fst (api_call demo_session
          (demo_world (scripted [status_response 401, token_response ''A2'' ''R2'' ''did:abc'',
                                 status_response 401]))
          ''app.bsky.feed.getTimeline'' ''GET'' None None None None 1) = Inl (HTTPError 401) \<and>
   fst (api_call demo_session (demo_world (scripted [status_response 403]))
          ''app.bsky.feed.getTimeline'' ''GET'' None None None None 1) = Inl (HTTPError 403) \<and>
   fst (api_call demo_session (demo_world (scripted [status_response 401]))
          ''app.bsky.feed.getTimeline'' ''GET'' None None None None 0) = Inl (HTTPError 401)"
  by (simp add: api_call.simps demo_defs model_defs)

text \<open>
  Claim C1, amended.  A guarded call with retry budget 1 that receives an auth-failure
  status (401 or 400), completes its recovery, and receives an auth-failure status again
  on the retried request, has made exactly one recovery attempt and then fails with the
  \<open>HTTPError\<close> of that last status, the same kind of error as for any other status from
  400 to 599; the session is the recovered one.  \<open>api_call\<close> is a total function, so
  the call does not loop.
\<close>

theorem auth_failure_twice_ends_in_HTTPError:
  assumes "h = fst (headers_or_new headers w)"
    and "w1 = update_headers h s (snd (headers_or_new headers w))"
    and "req = api_request w1 endpoint meth json data h params"
    and "net w1 (length (calls w1)) req = Responds resp"
    and "status_code resp \<in> {401, 400}"
    and "recover s (logging INFO ''Token potentially expired or invalid. Attempting to refresh.''
                      (w1\<lparr>calls := calls w1 @ [req]\<rparr>)) = (Inr u, s3, w3)"
    and "w4 = update_headers h s3 w3"
    and "req2 = api_request w4 endpoint meth json data h params"
    and "net w4 (length (calls w4)) req2 = Responds resp2"
    and "status_code resp2 \<in> {401, 400}"
  shows "api_call s w endpoint meth json data headers params 1 =
           (Inl (HTTPError (status_code resp2)), s3,
            logging ERROR ''Error during API call: %s''
              (logging ERROR ''Error during API call: %s'' (w4\<lparr>calls := calls w4 @ [req2]\<rparr>))) \<and>
         is_HTTPError (HTTPError (status_code resp2)) \<and>
         recovery_attempts (snd (snd (api_call s w endpoint meth json data headers params 1))) =
           recovery_attempts w + 1"
proof -
  from assms(10) have rs: "raises_for_status resp2"
    by (auto simp add: raises_for_status_def)
  have inner: "api_call s3 w4 endpoint meth json data (Some h) params 0 =
                 (Inl (HTTPError (status_code resp2)), s3,
                  logging ERROR ''Error during API call: %s'' (w4\<lparr>calls := calls w4 @ [req2]\<rparr>))"
    using api_call_retried_done [OF assms(7,8,9), where retry = 0] rs
    by (simp add: reraise_def)
  have outer: "api_call s w endpoint meth json data headers params 1 =
           (Inl (HTTPError (status_code resp2)), s3,
            logging ERROR ''Error during API call: %s''
              (logging ERROR ''Error during API call: %s'' (w4\<lparr>calls := calls w4 @ [req2]\<rparr>)))"
    using api_call_recover [OF assms(1-5), of 1] assms(6) inner
    by (simp add: assms(7) [symmetric] reraise_def)
  from recover_frame
    [of "logging INFO ''Token potentially expired or invalid. Attempting to refresh.''
           (w1\<lparr>calls := calls w1 @ [req]\<rparr>)" s] assms(6)
  have "recovery_attempts w3 = recovery_attempts w + 1"
    by (simp add: recovery_attempts_def assms(2))
  then have "recovery_attempts
               (logging ERROR ''Error during API call: %s''
                  (logging ERROR ''Error during API call: %s'' (w4\<lparr>calls := calls w4 @ [req2]\<rparr>))) =
             recovery_attempts w + 1"
    by (simp add: recovery_attempts_def assms(7))
  with outer show ?thesis
    by simp
qed

text \<open>
  Two 401 responses around a Refresh that succeeds: three requests, one recovery.
\<close>

theorem auth_failure_twice_ends_in_HTTPError_witness:
  "net (demo_world (scripted [status_response 401, token_response ''A2'' ''R2'' ''did:abc'',
                              status_response 401])) 0 (timeline_request ''A1'')
     = Responds \<lparr>status_code = 401, body_json = None\<rparr> \<and>
   net (demo_world (scripted [status_response 401, token_response ''A2'' ''R2'' ''did:abc'',
                              status_response 401])) 2 (timeline_request ''A2'')
     = Responds \<lparr>status_code = 401, body_json = None\<rparr> \<and>
   fst (api_call demo_session
     (demo_world (scripted [status_response 401, token_response ''A2'' ''R2'' ''did:abc'',
                            status_response 401]))
     ''app.bsky.feed.getTimeline'' ''GET'' None None None None 1) = Inl (HTTPError 401) \<and>
   fst (snd (api_call demo_session
     (demo_world (scripted [status_response 401, token_response ''A2'' ''R2'' ''did:abc'',
                            status_response 401]))
     ''app.bsky.feed.getTimeline'' ''GET'' None None None None 1)) =
     demo_session\<lparr>access_token := PyStr ''A2'', refresh_token := PyStr ''R2''\<rparr> \<and>
   calls (snd (snd (api_call demo_session
     (demo_world (scripted [status_response 401, token_response ''A2'' ''R2'' ''did:abc'',
                            status_response 401]))
     ''app.bsky.feed.getTimeline'' ''GET'' None None None None 1))) =
     [timeline_request ''A1'', refresh_request demo_session, timeline_request ''A2''] \<and>
   recovery_attempts (snd (snd (api_call demo_session
     (demo_world (scripted [status_response 401, token_response ''A2'' ''R2'' ''did:abc'',
                            status_response 401]))
     ''app.bsky.feed.getTimeline'' ''GET'' None None None None 1))) = 1"
  using auth_failure_twice_ends_in_HTTPError
    [where s = demo_session
       and w = "demo_world (scripted [status_response 401, token_response ''A2'' ''R2'' ''did:abc'',
                                      status_response 401])"
       and headers = None and endpoint = "''app.bsky.feed.getTimeline''" and meth = "''GET''"
       and json = None and data = None and params = None
       and resp = "\<lparr>status_code = 401, body_json = None\<rparr>"
       and ?resp2.0 = "\<lparr>status_code = 401, body_json = None\<rparr>"
       and u = "()"
       and ?s3.0 = "demo_session\<lparr>access_token := PyStr ''A2'', refresh_token := PyStr ''R2''\<rparr>",
     OF refl refl refl _ _ _ refl refl]
  by (simp add: demo_defs model_defs timeline_request_def recovery_attempts_def)

text \<open>
  Claim C2.  When the first attempt returns 401 (or 400) and the budget is positive, the
  requests made by the recovery are none (no refresh token is stored), the Refresh request
  alone, or the Refresh request followed by the Create request (a different request), and
  the last only when Refresh has raised \<open>ConnectionError\<close>.  An exception of the
  recovery leaves the call.  When the recovery returns, the call continues as the call with budget \<open>retry - 1\<close> on the
  same endpoint, method, payload and header dictionary, and its next request is the first
  one again with the \<open>Authorization\<close> header renewed.
\<close>

theorem recovery_refresh_first_then_retry:
  assumes "h = fst (headers_or_new headers w)"
    and "w1 = update_headers h s (snd (headers_or_new headers w))"
    and "req = api_request w1 endpoint meth json data h params"
    and "net w1 (length (calls w1)) req = Responds resp"
    and "status_code resp \<in> {401, 400}" and "0 < retry"
    and "wr = logging INFO ''Token potentially expired or invalid. Attempting to refresh.''
                (w1\<lparr>calls := calls w1 @ [req]\<rparr>)"
    and "recover s wr = (r, s3, w3)"
  shows "(\<exists>cs. calls w3 = calls w @ [req] @ cs \<and>
            (cs = [] \<and> \<not> truthy (refresh_token s) \<or>
             cs = [refresh_request s] \<or>
             cs = [refresh_request s, create_request s] \<and>
               (\<exists>m. fst (refresh_access_token s wr) = Inl (ConnectionError m)))) \<and>
         refresh_request s \<noteq> create_request s \<and>
         (\<forall>e. r = Inl e \<longrightarrow>
            api_call s w endpoint meth json data headers params retry = (Inl e, s3, reraise e w3)) \<and>
         (\<forall>v. r = Inr v \<longrightarrow>
            api_call s w endpoint meth json data headers params retry =
              handler (api_call s3 (update_headers h s3 w3) endpoint meth json data (Some h) params
                         (retry - 1)) \<and>
            (\<exists>rest. calls (snd (snd (api_call s w endpoint meth json data headers params retry))) =
               calls w3 @ [req\<lparr>req_headers := req_headers req ++ get_auth_header s3\<rparr>] @ rest))"
proof -
  note st = assms(5)
  note unfold = api_call_recover [OF assms(1-4) st assms(6), folded assms(7), unfolded assms(8)]
  from recover_world(3) [OF assms(8)] have trace:
    "\<exists>cs. calls w3 = calls w @ [req] @ cs \<and>
            (cs = [] \<and> \<not> truthy (refresh_token s) \<or>
             cs = [refresh_request s] \<or>
             cs = [refresh_request s, create_request s] \<and>
               (\<exists>m. fst (refresh_access_token s wr) = Inl (ConnectionError m)))"
    by (auto simp add: assms(7) assms(2))
  have failed: "api_call s w endpoint meth json data headers params retry = (Inl e, s3, reraise e w3)"
    if "r = Inl e" for e
    using unfold that by simp
  have again: "api_call s w endpoint meth json data headers params retry =
              handler (api_call s3 (update_headers h s3 w3) endpoint meth json data (Some h) params
                         (retry - 1))"
    if "r = Inr v" for v
    using unfold that by simp
  have hn: "headers_or_new (Some h) (update_headers h s3 w3) = (h, update_headers h s3 w3)"
    by (rule headers_or_new_nonempty) (rule update_headers_nonempty)
  from recover_world(1) [OF assms(8)] have env: "same_env wr w3" .
  have "\<exists>rest. calls (snd (snd (api_call s3 (update_headers h s3 w3) endpoint meth json data (Some h)
                                   params (retry - 1)))) =
          calls w3 @ [req\<lparr>req_headers := req_headers req ++ get_auth_header s3\<rparr>] @ rest"
    using api_call_calls [of s3 "update_headers h s3 w3" endpoint meth json data "Some h" params "retry - 1"]
      retried_request [OF assms(2,3) env [unfolded assms(7)], of s3]
    by (simp add: hn update_headers_idem)
  with again have reissued:
    "\<exists>rest. calls (snd (snd (api_call s w endpoint meth json data headers params retry))) =
        calls w3 @ [req\<lparr>req_headers := req_headers req ++ get_auth_header s3\<rparr>] @ rest"
    if "r = Inr v" for v
    using that by simp
  have differ: "refresh_request s \<noteq> create_request s"
    by (simp add: refresh_request_def create_request_def)
  from trace differ failed again reissued show ?thesis
    by blast
qed

text \<open>
  The example of the specification: 401, Refresh to \<open>A2\<close>, and the retried call
  returns its body.  Then a recovery that fails: Refresh is answered 400, Create is tried
  and answered 401, and its \<open>ConnectionError\<close> leaves the call after three requests.
\<close>

theorem recovery_refresh_first_then_retry_witness:
  "net (demo_world (scripted [status_response 401, token_response ''A2'' ''R2'' ''did:abc'', ok_response]))
     0 (timeline_request ''A1'') = Responds \<lparr>status_code = 401, body_json = None\<rparr> \<and>
   status_code \<lparr>status_code = 401, body_json = None\<rparr> \<in> {401, 400} \<and> (0::int) < 1 \<and>
   api_call demo_session
     (demo_world (scripted [status_response 401, token_response ''A2'' ''R2'' ''did:abc'', ok_response]))
     ''app.bsky.feed.getTimeline'' ''GET'' None None None None 1 =
     (Inr (JObject [''ok'' \<mapsto> PyOther True ''True'']),
      demo_session\<lparr>access_token := PyStr ''A2'', refresh_token := PyStr ''R2''\<rparr>,
      (demo_world (scripted [status_response 401, token_response ''A2'' ''R2'' ''did:abc'', ok_response]))
        \<lparr>calls := [timeline_request ''A1'', refresh_request demo_session, timeline_request ''A2''],
         files := [''session.json'' \<mapsto> Json (JObject
            [''accessJwt'' \<mapsto> PyStr ''A2'', ''refreshJwt'' \<mapsto> PyStr ''R2'', ''did'' \<mapsto> PyStr ''did:abc''])],
         disk_ops := 1,
         logs := [(INFO, ''Token potentially expired or invalid. Attempting to refresh.''),
                  (INFO, ''Session saved to file.''),
                  (INFO, ''Access token refreshed successfully.'')],
         heap := (\<lambda>r. Map.empty)(0 := [''Authorization'' \<mapsto> ''Bearer A2'']),
         next_ref := 1\<rparr>) \<and>
   net (demo_world (scripted [status_response 401, status_response 400, status_response 401]))
     0 (timeline_request ''A1'') = Responds \<lparr>status_code = 401, body_json = None\<rparr> \<and>
   fst (api_call demo_session
     (demo_world (scripted [status_response 401, status_response 400, status_response 401]))
     ''app.bsky.feed.getTimeline'' ''GET'' None None None None 1) =
     Inl (ConnectionError ''Error creating session'') \<and>
   calls (snd (snd (api_call demo_session
     (demo_world (scripted [status_response 401, status_response 400, status_response 401]))
     ''app.bsky.feed.getTimeline'' ''GET'' None None None None 1))) =
     [timeline_request ''A1'', refresh_request demo_session, create_request demo_session]"
  using recovery_refresh_first_then_retry
    [where s = demo_session
       and w = "demo_world (scripted [status_response 401, token_response ''A2'' ''R2'' ''did:abc'',
                                      ok_response])"
       and headers = None and endpoint = "''app.bsky.feed.getTimeline''" and meth = "''GET''"
       and json = None and data = None and params = None and retry = 1
       and resp = "\<lparr>status_code = 401, body_json = None\<rparr>"
       and r = "Inr ()"
       and ?s3.0 = "demo_session\<lparr>access_token := PyStr ''A2'', refresh_token := PyStr ''R2''\<rparr>",
     OF refl refl refl _ _ _ refl]
    recovery_refresh_first_then_retry
    [where s = demo_session
       and w = "demo_world (scripted [status_response 401, status_response 400, status_response 401])"
       and headers = None and endpoint = "''app.bsky.feed.getTimeline''" and meth = "''GET''"
       and json = None and data = None and params = None and retry = 1
       and resp = "\<lparr>status_code = 401, body_json = None\<rparr>"
       and r = "Inl (ConnectionError ''Error creating session'')"
       and ?s3.0 = demo_session,
     OF refl refl refl _ _ _ refl]
  by (simp add: api_call.simps demo_defs model_defs timeline_request_def ok_response_def)

text \<open>
  Claim C3, as stated, fails: with no refresh token stored, a 401 makes the guarded call
  raise \<open>ValueError\<close>; the only request made is the first one, and Create is never tried
  although the transport would have answered it.
\<close>

theorem missing_refresh_token_counterexample:
  "fst (api_call (demo_session\<lparr>refresh_token := PyNone\<rparr>)
          (demo_world (scripted [status_response 401, token_response ''A2'' ''R2'' ''did:abc'']))
          ''app.bsky.feed.getTimeline'' ''GET'' None None None None 1) = Inl ValueError \<and>
   calls (snd (snd (api_call (demo_session\<lparr>refresh_token := PyNone\<rparr>)
          (demo_world (scripted [status_response 401, token_response ''A2'' ''R2'' ''did:abc'']))
          ''app.bsky.feed.getTimeline'' ''GET'' None None None None 1))) = [timeline_request ''A1'']"
  by (simp add: api_call.simps demo_defs model_defs timeline_request_def)

text \<open>
  Claim C3, amended.  Refresh without a stored refresh token fails at once with
  \<open>ValueError\<close> and makes no request.  In the recovery of a guarded call this error is not
  caught (line 173 catches \<open>ConnectionError\<close> only): it leaves the guarded call, and no
  request beyond the first attempt is made.
\<close>

theorem missing_refresh_token_propagates:
  assumes "\<not> truthy (refresh_token s)"
    and "h = fst (headers_or_new headers w)"
    and "w1 = update_headers h s (snd (headers_or_new headers w))"
    and "req = api_request w1 endpoint meth json data h params"
    and "net w1 (length (calls w1)) req = Responds resp"
    and "status_code resp \<in> {401, 400}" and "0 < retry"
  shows "refresh_access_token s wx =
           (Inl ValueError, s, logging ERROR ''No refresh token available.'' wx) \<and>
         calls (snd (snd (refresh_access_token s wx))) = calls wx \<and>
         api_call s w endpoint meth json data headers params retry =
           (Inl ValueError, s,
            logging ERROR ''No refresh token available.''
              (logging INFO ''Token potentially expired or invalid. Attempting to refresh.''
                 (w1\<lparr>calls := calls w1 @ [req]\<rparr>))) \<and>
         calls (snd (snd (api_call s w endpoint meth json data headers params retry))) =
           calls w @ [req]"
proof -
  have "api_call s w endpoint meth json data headers params retry =
          (Inl ValueError, s,
           logging ERROR ''No refresh token available.''
             (logging INFO ''Token potentially expired or invalid. Attempting to refresh.''
                (w1\<lparr>calls := calls w1 @ [req]\<rparr>)))"
    by (simp add: api_call_recover [OF assms(2-7)] recover_missing [OF assms(1)] reraise_def)
  with assms(1,3) show ?thesis
    by (simp add: refresh_access_token_missing)
qed

text \<open>
  A session without refresh token that receives 401.
\<close>

theorem missing_refresh_token_propagates_witness:
  "\<not> truthy (refresh_token (demo_session\<lparr>refresh_token := PyNone\<rparr>)) \<and>
   net (demo_world (scripted [status_response 401, token_response ''A2'' ''R2'' ''did:abc''])) 0
     (timeline_request ''A1'') = Responds \<lparr>status_code = 401, body_json = None\<rparr> \<and>
   api_call (demo_session\<lparr>refresh_token := PyNone\<rparr>)
     (demo_world (scripted [status_response 401, token_response ''A2'' ''R2'' ''did:abc'']))
     ''app.bsky.feed.getTimeline'' ''GET'' None None None None 1 =
     (Inl ValueError, demo_session\<lparr>refresh_token := PyNone\<rparr>,
      (demo_world (scripted [status_response 401, token_response ''A2'' ''R2'' ''did:abc'']))
        \<lparr>calls := [timeline_request ''A1''],
         logs := [(INFO, ''Token potentially expired or invalid. Attempting to refresh.''),
                  (ERROR, ''No refresh token available.'')],
         heap := (\<lambda>r. Map.empty)(0 := [''Authorization'' \<mapsto> ''Bearer A1'']),
         next_ref := 1\<rparr>)"
  using missing_refresh_token_propagates
    [where s = "demo_session\<lparr>refresh_token := PyNone\<rparr>"
       and w = "demo_world (scripted [status_response 401, token_response ''A2'' ''R2'' ''did:abc''])"
       and wx = "demo_world (scripted [])"
       and headers = None and endpoint = "''app.bsky.feed.getTimeline''" and meth = "''GET''"
       and json = None and data = None and params = None and retry = 1
       and resp = "\<lparr>status_code = 401, body_json = None\<rparr>",
     OF _ refl refl refl]
  by (simp add: demo_defs model_defs timeline_request_def)

section \<open>Guarded call: the caller's header dictionary\<close>

text \<open>
  Claim C9, as stated, fails: an empty dictionary passed as \<open>headers\<close> is false, so
  \<open>headers or {}\<close> takes a new dictionary; the caller's dictionary (address 0) is empty
  after the call as before, and the header went into the new one (address 1).
\<close>

theorem empty_headers_counterexample:
  "heap ((demo_world (scripted [ok_response]))\<lparr>next_ref := 1\<rparr>) 0 = Map.empty \<and>
   fst (api_call demo_session ((demo_world (scripted [ok_response]))\<lparr>next_ref := 1\<rparr>)
          ''app.bsky.feed.getTimeline'' ''GET'' None None (Some 0) None 1) =
     Inr (JObject [''ok'' \<mapsto> PyOther True ''True'']) \<and>
   heap (snd (snd (api_call demo_session ((demo_world (scripted [ok_response]))\<lparr>next_ref := 1\<rparr>)
          ''app.bsky.feed.getTimeline'' ''GET'' None None (Some 0) None 1))) 0 = Map.empty \<and>
   heap (snd (snd (api_call demo_session ((demo_world (scripted [ok_response]))\<lparr>next_ref := 1\<rparr>)
          ''app.bsky.feed.getTimeline'' ''GET'' None None (Some 0) None 1))) 1 =
     [''Authorization'' \<mapsto> ''Bearer A1'']"
  by (simp add: api_call.simps demo_defs model_defs ok_response_def)

text \<open>
  Claim C9, amended.  When the caller passes a dictionary that is not empty, that object
  is updated in place: after the call, whether it returned or raised, the heap differs
  from the one before only in the \<open>Authorization\<close> entry of that dictionary, which is a
  bearer header, and after a call that returns it is the header of the session's current
  access token.  An empty dictionary that the caller passes stays empty.
\<close>

theorem nonempty_headers_mutated_in_place:
  "(heap w r \<noteq> Map.empty \<longrightarrow>
      (\<exists>t. heap (snd (snd (api_call s w endpoint meth json data (Some r) params retry))) =
              (heap w)(r := (heap w r)(''Authorization'' \<mapsto> ''Bearer '' @ t)) \<and>
            (\<forall>v. fst (api_call s w endpoint meth json data (Some r) params retry) = Inr v \<longrightarrow>
                 t = py_str (access_token
                       (fst (snd (api_call s w endpoint meth json data (Some r) params retry))))))) \<and>
   (heap w r = Map.empty \<and> r \<noteq> next_ref w \<longrightarrow>
      heap (snd (snd (api_call s w endpoint meth json data (Some r) params retry))) r = Map.empty)"
proof (intro conjI impI)
  assume "heap w r \<noteq> Map.empty"
  then have "headers_or_new (Some r) w = (r, w)"
    by (rule headers_or_new_nonempty)
  with api_call_heap [of s w endpoint meth json data "Some r" params retry]
  show "\<exists>t. heap (snd (snd (api_call s w endpoint meth json data (Some r) params retry))) =
              (heap w)(r := (heap w r)(''Authorization'' \<mapsto> ''Bearer '' @ t)) \<and>
            (\<forall>v. fst (api_call s w endpoint meth json data (Some r) params retry) = Inr v \<longrightarrow>
                 t = py_str (access_token
                       (fst (snd (api_call s w endpoint meth json data (Some r) params retry)))))"
    by simp
next
  assume "heap w r = Map.empty \<and> r \<noteq> next_ref w"
  then have "headers_or_new (Some r) w = new_dict w" and "r \<noteq> next_ref w" and "heap w r = Map.empty"
    by (simp_all add: headers_or_new_def)
  with api_call_heap [of s w endpoint meth json data "Some r" params retry]
  show "heap (snd (snd (api_call s w endpoint meth json data (Some r) params retry))) r = Map.empty"
    by (auto simp add: new_dict_def)
qed

text \<open>
  A dictionary with one entry gains the header of the token obtained by the recovery; an
  empty one is left empty by a call that fails with status 500.
\<close>

theorem nonempty_headers_mutated_in_place_witness:
  "heap ((demo_world (scripted [status_response 401, token_response ''A2'' ''R2'' ''did:abc'', ok_response]))
           \<lparr>heap := (\<lambda>r. Map.empty)(0 := [''Accept'' \<mapsto> ''application/json'']), next_ref := 1\<rparr>) 0
     \<noteq> Map.empty \<and>
   fst (api_call demo_session
     ((demo_world (scripted [status_response 401, token_response ''A2'' ''R2'' ''did:abc'', ok_response]))
        \<lparr>heap := (\<lambda>r. Map.empty)(0 := [''Accept'' \<mapsto> ''application/json'']), next_ref := 1\<rparr>)
     ''app.bsky.feed.getTimeline'' ''GET'' None None (Some 0) None 1) =
     Inr (JObject [''ok'' \<mapsto> PyOther True ''True'']) \<and>
   heap (snd (snd (api_call demo_session
     ((demo_world (scripted [status_response 401, token_response ''A2'' ''R2'' ''did:abc'', ok_response]))
        \<lparr>heap := (\<lambda>r. Map.empty)(0 := [''Accept'' \<mapsto> ''application/json'']), next_ref := 1\<rparr>)
     ''app.bsky.feed.getTimeline'' ''GET'' None None (Some 0) None 1))) 0 =
     [''Accept'' \<mapsto> ''application/json'', ''Authorization'' \<mapsto> ''Bearer A2''] \<and>
   heap ((demo_world (scripted [status_response 500]))\<lparr>next_ref := 1\<rparr>) 0 = Map.empty \<and>
   0 \<noteq> next_ref ((demo_world (scripted [status_response 500]))\<lparr>next_ref := 1\<rparr>) \<and>
   heap (snd (snd (api_call demo_session ((demo_world (scripted [status_response 500]))\<lparr>next_ref := 1\<rparr>)
     ''app.bsky.feed.getTimeline'' ''GET'' None None (Some 0) None 1))) 0 = Map.empty"
  using nonempty_headers_mutated_in_place
    [of "(demo_world (scripted [status_response 401, token_response ''A2'' ''R2'' ''did:abc'', ok_response]))
           \<lparr>heap := (\<lambda>r. Map.empty)(0 := [''Accept'' \<mapsto> ''application/json'']), next_ref := 1\<rparr>"
        0 demo_session "''app.bsky.feed.getTimeline''" "''GET''" None None None 1]
    nonempty_headers_mutated_in_place
    [of "(demo_world (scripted [status_response 500]))\<lparr>next_ref := 1\<rparr>"
        0 demo_session "''app.bsky.feed.getTimeline''" "''GET''" None None None 1]
  by (simp add: api_call.simps demo_defs model_defs ok_response_def)

end
